theory Spec2Isabelle
  imports Main "HOL-Library.Sublist"
begin

section \<open>The syntax tree of go/ast as a store\<close>

text \<open>
  \<^verbatim>\<open>astrewrite.Walk\<close> rewrites a go/ast tree in place: it receives a pointer, assigns to
  the fields of the object behind it and returns whatever the visitor returned. Several
  properties of the package are about which object is written and which pointer is
  returned, so the model keeps the objects in a store. The store has one component per
  struct field (the field is a function from addresses to contents), and a pointer
  carries the concrete type of its target, as a Go interface value does. A field can
  therefore only be read at an object of the struct that declares it.

  The node types and their fields are those of the standard library's go/ast in the
  version whose types the \<^verbatim>\<open>switch\<close> of \<^verbatim>\<open>Walk\<close> lists. Positions, tokens, names and the other
  scalar fields are not read or written by this package and are left out.
\<close>

type_synonym addr = nat

text \<open>The four interfaces below \<^verbatim>\<open>ast.Node\<close> that the type assertions of the package name.\<close>

datatype family = FExpr | FStmt | FDecl | FSpec

text \<open>
  The concrete node types, in the order of the cases of \<^verbatim>\<open>Walk\<close>. \<open>KOther\<close> stands for any
  implementation of \<^verbatim>\<open>ast.Node\<close> that the \<^verbatim>\<open>switch\<close> does not list, with the interfaces it
  implements.
\<close>

datatype (plugins only: code) kind =
    KComment | KCommentGroup | KField | KFieldList
  | KBadExpr | KIdent | KBasicLit | KEllipsis | KFuncLit | KCompositeLit | KParenExpr
  | KSelectorExpr | KIndexExpr | KSliceExpr | KTypeAssertExpr | KCallExpr | KStarExpr
  | KUnaryExpr | KBinaryExpr | KKeyValueExpr
  | KArrayType | KStructType | KFuncType | KInterfaceType | KMapType | KChanType
  | KBadStmt | KDeclStmt | KEmptyStmt | KLabeledStmt | KExprStmt | KSendStmt | KIncDecStmt
  | KAssignStmt | KGoStmt | KDeferStmt | KReturnStmt | KBranchStmt | KBlockStmt | KIfStmt
  | KCaseClause | KSwitchStmt | KTypeSwitchStmt | KCommClause | KSelectStmt | KForStmt
  | KRangeStmt
  | KImportSpec | KValueSpec | KTypeSpec | KBadDecl | KGenDecl | KFuncDecl
  | KFile | KPackage
  | KOther "family list"

text \<open>
  A value of interface type \<^verbatim>\<open>ast.Node\<close> (or \<^verbatim>\<open>ast.Expr\<close>, ...): the nil interface, a nil
  pointer of a concrete type, or a pointer to an object.
\<close>

datatype val = Nil | TNil kind | Ptr kind addr

text \<open>Fields whose static type is an interface (\<^verbatim>\<open>ast.Expr\<close>, \<^verbatim>\<open>ast.Stmt\<close>, \<^verbatim>\<open>ast.Decl\<close>).\<close>

datatype (plugins only: code) ifield =
    Field_Type | Ellipsis_Elt | CompositeLit_Type | ParenExpr_X | SelectorExpr_X
  | IndexExpr_X | IndexExpr_Index | SliceExpr_X | SliceExpr_Low | SliceExpr_High
  | SliceExpr_Max | TypeAssertExpr_X | TypeAssertExpr_Type | CallExpr_Fun | StarExpr_X
  | UnaryExpr_X | BinaryExpr_X | BinaryExpr_Y | KeyValueExpr_Key | KeyValueExpr_Value
  | ArrayType_Len | ArrayType_Elt | MapType_Key | MapType_Value | ChanType_Value
  | DeclStmt_Decl | LabeledStmt_Stmt | ExprStmt_X | SendStmt_Chan | SendStmt_Value
  | IncDecStmt_X | IfStmt_Init | IfStmt_Cond | IfStmt_Else | SwitchStmt_Init | SwitchStmt_Tag
  | TypeSwitchStmt_Init | TypeSwitchStmt_Assign | CommClause_Comm | ForStmt_Init
  | ForStmt_Cond | ForStmt_Post | RangeStmt_Key | RangeStmt_Value | RangeStmt_X
  | ValueSpec_Type | TypeSpec_Type

text \<open>Fields whose static type is a pointer to one struct.\<close>

datatype (plugins only: code) pfield =
    Field_Doc | Field_Tag | Field_Comment | FuncLit_Type | FuncLit_Body | SelectorExpr_Sel
  | StructType_Fields | FuncType_Params | FuncType_Results | InterfaceType_Methods
  | LabeledStmt_Label | GoStmt_Call | DeferStmt_Call | BranchStmt_Label | IfStmt_Body
  | SwitchStmt_Body | TypeSwitchStmt_Body | SelectStmt_Body | ForStmt_Body | RangeStmt_Body
  | ImportSpec_Doc | ImportSpec_Name | ImportSpec_Path | ImportSpec_Comment
  | ValueSpec_Doc | ValueSpec_Comment | TypeSpec_Doc | TypeSpec_Name | TypeSpec_Comment
  | GenDecl_Doc | FuncDecl_Doc | FuncDecl_Recv | FuncDecl_Name | FuncDecl_Type
  | FuncDecl_Body | File_Doc | File_Name

text \<open>Slices of interface values and slices of pointers.\<close>

datatype ilfield =
    CompositeLit_Elts | CallExpr_Args | AssignStmt_Lhs | AssignStmt_Rhs | ReturnStmt_Results
  | BlockStmt_List | CaseClause_List | CaseClause_Body | CommClause_Body | ValueSpec_Values
  | GenDecl_Specs | File_Decls

datatype plfield =
    CommentGroup_List | Field_Names | FieldList_List | ValueSpec_Names | File_Comments

text \<open>
  The store, and with it the private state of the visitor (\<open>user\<close>): a Go closure may keep
  and change any state of its own, and it may write to the tree. \<open>files\<close> is the map
  \<^verbatim>\<open>Package.Files\<close>, as the list of its entries in the order in which \<^verbatim>\<open>range\<close> happens to
  produce them (Go leaves that order open).
\<close>

record 'u world =
  iface :: "ifield \<Rightarrow> addr \<Rightarrow> val"
  ptr :: "pfield \<Rightarrow> addr \<Rightarrow> addr option"
  ilist :: "ilfield \<Rightarrow> addr \<Rightarrow> val list"
  plist :: "plfield \<Rightarrow> addr \<Rightarrow> addr option list"
  files :: "addr \<Rightarrow> (string \<times> addr option) list"
  user :: 'u

definition setI :: "ifield \<Rightarrow> addr \<Rightarrow> val \<Rightarrow> 'u world \<Rightarrow> 'u world" where
  "setI f a v w = w\<lparr>iface := (iface w)(f := (iface w f)(a := v))\<rparr>"

definition setP :: "pfield \<Rightarrow> addr \<Rightarrow> addr option \<Rightarrow> 'u world \<Rightarrow> 'u world" where
  "setP f a p w = w\<lparr>ptr := (ptr w)(f := (ptr w f)(a := p))\<rparr>"

definition setIL :: "ilfield \<Rightarrow> addr \<Rightarrow> val list \<Rightarrow> 'u world \<Rightarrow> 'u world" where
  "setIL f a vs w = w\<lparr>ilist := (ilist w)(f := (ilist w f)(a := vs))\<rparr>"

definition setPL :: "plfield \<Rightarrow> addr \<Rightarrow> addr option list \<Rightarrow> 'u world \<Rightarrow> 'u world" where
  "setPL f a ps w = w\<lparr>plist := (plist w)(f := (plist w f)(a := ps))\<rparr>"

definition setFile :: "addr \<Rightarrow> string \<Rightarrow> addr option \<Rightarrow> 'u world \<Rightarrow> 'u world" where
  "setFile a i p w =
     w\<lparr>files := (files w)(a := map (\<lambda>(k, x). if k = i then (k, p) else (k, x)) (files w a))\<rparr>"

subsection \<open>Static types of the fields, and the method sets\<close>

text \<open>
  From the struct declarations of go/ast: the interface a field of interface type is
  declared with, and the struct a pointer field points to.
\<close>

definition ifam :: "ifield \<Rightarrow> family" where
  "ifam f =
     (if f = DeclStmt_Decl then FDecl
      else if f \<in> set [LabeledStmt_Stmt, IfStmt_Init, IfStmt_Else, SwitchStmt_Init,
                      TypeSwitchStmt_Init, TypeSwitchStmt_Assign, CommClause_Comm,
                      ForStmt_Init, ForStmt_Post] then FStmt
      else FExpr)"

definition pkind :: "pfield \<Rightarrow> kind" where
  "pkind f =
     (if f \<in> set [Field_Doc, Field_Comment, ImportSpec_Doc, ImportSpec_Comment, ValueSpec_Doc,
                  ValueSpec_Comment, TypeSpec_Doc, TypeSpec_Comment, GenDecl_Doc, FuncDecl_Doc,
                  File_Doc] then KCommentGroup
      else if f \<in> set [Field_Tag, ImportSpec_Path] then KBasicLit
      else if f \<in> set [SelectorExpr_Sel, LabeledStmt_Label, BranchStmt_Label, ImportSpec_Name,
                       TypeSpec_Name, FuncDecl_Name, File_Name] then KIdent
      else if f \<in> set [FuncLit_Type, FuncDecl_Type] then KFuncType
      else if f \<in> set [StructType_Fields, FuncType_Params, FuncType_Results,
                       InterfaceType_Methods, FuncDecl_Recv] then KFieldList
      else if f \<in> set [GoStmt_Call, DeferStmt_Call] then KCallExpr
      else KBlockStmt)"

definition plkind :: "plfield \<Rightarrow> kind" where
  "plkind f =
     (case f of CommentGroup_List \<Rightarrow> KComment | Field_Names \<Rightarrow> KIdent
      | FieldList_List \<Rightarrow> KField | ValueSpec_Names \<Rightarrow> KIdent | File_Comments \<Rightarrow> KCommentGroup)"

text \<open>
  Which concrete types implement which interface (the types of go/ast that declare
  \<^verbatim>\<open>exprNode\<close>, \<^verbatim>\<open>stmtNode\<close>, \<^verbatim>\<open>declNode\<close>, \<^verbatim>\<open>specNode\<close>).
\<close>

definition exprKinds :: "kind list" where
  "exprKinds = [KBadExpr, KIdent, KBasicLit, KEllipsis, KFuncLit, KCompositeLit, KParenExpr,
     KSelectorExpr, KIndexExpr, KSliceExpr, KTypeAssertExpr, KCallExpr, KStarExpr, KUnaryExpr,
     KBinaryExpr, KKeyValueExpr, KArrayType, KStructType, KFuncType, KInterfaceType, KMapType,
     KChanType]"

definition stmtKinds :: "kind list" where
  "stmtKinds = [KBadStmt, KDeclStmt, KEmptyStmt, KLabeledStmt, KExprStmt, KSendStmt,
     KIncDecStmt, KAssignStmt, KGoStmt, KDeferStmt, KReturnStmt, KBranchStmt, KBlockStmt,
     KIfStmt, KCaseClause, KSwitchStmt, KTypeSwitchStmt, KCommClause, KSelectStmt, KForStmt,
     KRangeStmt]"

definition implements :: "kind \<Rightarrow> family \<Rightarrow> bool" where
  "implements k fam =
     (case k of
        KOther fams \<Rightarrow> fam \<in> set fams
      | _ \<Rightarrow> (case fam of
                FExpr \<Rightarrow> k \<in> set exprKinds
              | FStmt \<Rightarrow> k \<in> set stmtKinds
              | FDecl \<Rightarrow> k \<in> set [KBadDecl, KGenDecl, KFuncDecl]
              | FSpec \<Rightarrow> k \<in> set [KImportSpec, KValueSpec, KTypeSpec]))"

subsection \<open>Interface values: nil tests and type assertions\<close>

text \<open>
  \<^verbatim>\<open>isNil\<close> of the source: true of the nil interface (\<^verbatim>\<open>!rv.IsValid()\<close>) and of a nil pointer
  inside an interface (\<^verbatim>\<open>rv.IsNil()\<close>).
\<close>

definition isNil :: "val \<Rightarrow> bool" where
  "isNil v = (case v of Ptr k a \<Rightarrow> False | _ \<Rightarrow> True)"

text \<open>The target of a type assertion \<^verbatim>\<open>x.(T)\<close>: an interface or a pointer type.\<close>

datatype target = ToIface family | ToPtr kind

definition dynKind :: "val \<Rightarrow> kind option" where
  "dynKind v = (case v of Nil \<Rightarrow> None | TNil k \<Rightarrow> Some k | Ptr k a \<Rightarrow> Some k)"

text \<open>
  Whether \<^verbatim>\<open>x.(T)\<close> holds. The nil interface satisfies no assertion; a nil pointer inside
  an interface satisfies the assertions of its type.
\<close>

definition isA :: "target \<Rightarrow> val \<Rightarrow> bool" where
  "isA t v =
     (case dynKind v of
        None \<Rightarrow> False
      | Some k \<Rightarrow> (case t of ToIface fam \<Rightarrow> implements k fam | ToPtr k' \<Rightarrow> k = k'))"

text \<open>A pointer converted to \<^verbatim>\<open>ast.Node\<close>, and back after an assertion to the pointer type.\<close>

definition toNode :: "kind \<Rightarrow> addr option \<Rightarrow> val" where
  "toNode k p = (case p of None \<Rightarrow> TNil k | Some a \<Rightarrow> Ptr k a)"

definition ptrOf :: "val \<Rightarrow> addr option" where
  "ptrOf v = (case v of Ptr k a \<Rightarrow> Some a | _ \<Rightarrow> None)"

subsection \<open>Outcomes\<close>

text \<open>
  A call returns, panics, or has not returned within the recursion depth it was given.
  \<open>Conversion\<close> is the run-time panic of an unchecked type assertion (\<^verbatim>\<open>interface conversion\<close>),
  \<open>UnexpectedNode\<close> the \<^verbatim>\<open>panic\<close> of the \<^verbatim>\<open>default\<close> case of \<^verbatim>\<open>Walk\<close>. \<open>InspectUnexpected\<close> and
  \<open>NilDeref\<close> can only come from \<^verbatim>\<open>ast.Inspect\<close> inside \<^verbatim>\<open>nukeComments\<close>.
\<close>

datatype panic =
    Conversion val target
  | UnexpectedNode kind
  | InspectUnexpected kind
  | NilDeref kind

datatype 'a outcome = Ok 'a | Panic panic | OutOfFuel

definition bindO :: "'a outcome \<Rightarrow> ('a \<Rightarrow> 'b outcome) \<Rightarrow> 'b outcome" where
  "bindO m f = (case m of Ok x \<Rightarrow> f x | Panic p \<Rightarrow> Panic p | OutOfFuel \<Rightarrow> OutOfFuel)"

fun foldO :: "('x \<Rightarrow> 's \<Rightarrow> 's outcome) \<Rightarrow> 'x list \<Rightarrow> 's \<Rightarrow> 's outcome" where
  "foldO f [] s = Ok s"
| "foldO f (x # xs) s = bindO (f x s) (foldO f xs)"

section \<open>The annotation pruner\<close>

text \<open>
  \<^verbatim>\<open>nukeComments\<close> runs \<^verbatim>\<open>ast.Inspect\<close> of the standard library with a callback that
  empties every comment group it meets and does not descend into it. \<^verbatim>\<open>ast.Inspect\<close> is not
  part of this repository; \<open>astChildren\<close> lists, per node type, the children that
  go/ast's own \<^verbatim>\<open>Walk\<close> visits, in its order: a child behind an \<^verbatim>\<open>if n.X != nil\<close> there is
  \<open>Opt\<close>, a child visited unconditionally is \<open>Req\<close>, a slice is \<open>ManyI\<close> or \<open>ManyP\<close>, the
  files of a package are \<open>AllFiles\<close>.
\<close>

datatype slot = I ifield | P pfield

datatype child = Req slot | Opt slot | ManyI ilfield | ManyP plfield | AllFiles

definition load :: "slot \<Rightarrow> addr \<Rightarrow> 'u world \<Rightarrow> val" where
  "load s a w = (case s of I f \<Rightarrow> iface w f a | P f \<Rightarrow> toNode (pkind f) (ptr w f a))"

definition absent :: "slot \<Rightarrow> addr \<Rightarrow> 'u world \<Rightarrow> bool" where
  "absent s a w = (case s of I f \<Rightarrow> iface w f a = Nil | P f \<Rightarrow> ptr w f a = None)"

definition childVals :: "'u world \<Rightarrow> addr \<Rightarrow> child \<Rightarrow> val list" where
  "childVals w a c =
     (case c of
        Req s \<Rightarrow> [load s a w]
      | Opt s \<Rightarrow> (if absent s a w then [] else [load s a w])
      | ManyI f \<Rightarrow> ilist w f a
      | ManyP f \<Rightarrow> map (toNode (plkind f)) (plist w f a)
      | AllFiles \<Rightarrow> map (\<lambda>(i, f). toNode KFile f) (files w a))"

definition astChildren :: "kind \<Rightarrow> child list option" where
  "astChildren k =
     (case k of
        KComment \<Rightarrow> Some []
      | KCommentGroup \<Rightarrow> Some [ManyP CommentGroup_List]
      | KField \<Rightarrow> Some [Opt (P Field_Doc), ManyP Field_Names, Req (I Field_Type),
                         Opt (P Field_Tag), Opt (P Field_Comment)]
      | KFieldList \<Rightarrow> Some [ManyP FieldList_List]
      | KBadExpr \<Rightarrow> Some [] | KIdent \<Rightarrow> Some [] | KBasicLit \<Rightarrow> Some []
      | KEllipsis \<Rightarrow> Some [Opt (I Ellipsis_Elt)]
      | KFuncLit \<Rightarrow> Some [Req (P FuncLit_Type), Req (P FuncLit_Body)]
      | KCompositeLit \<Rightarrow> Some [Opt (I CompositeLit_Type), ManyI CompositeLit_Elts]
      | KParenExpr \<Rightarrow> Some [Req (I ParenExpr_X)]
      | KSelectorExpr \<Rightarrow> Some [Req (I SelectorExpr_X), Req (P SelectorExpr_Sel)]
      | KIndexExpr \<Rightarrow> Some [Req (I IndexExpr_X), Req (I IndexExpr_Index)]
      | KSliceExpr \<Rightarrow> Some [Req (I SliceExpr_X), Opt (I SliceExpr_Low), Opt (I SliceExpr_High),
                             Opt (I SliceExpr_Max)]
      | KTypeAssertExpr \<Rightarrow> Some [Req (I TypeAssertExpr_X), Opt (I TypeAssertExpr_Type)]
      | KCallExpr \<Rightarrow> Some [Req (I CallExpr_Fun), ManyI CallExpr_Args]
      | KStarExpr \<Rightarrow> Some [Req (I StarExpr_X)]
      | KUnaryExpr \<Rightarrow> Some [Req (I UnaryExpr_X)]
      | KBinaryExpr \<Rightarrow> Some [Req (I BinaryExpr_X), Req (I BinaryExpr_Y)]
      | KKeyValueExpr \<Rightarrow> Some [Req (I KeyValueExpr_Key), Req (I KeyValueExpr_Value)]
      | KArrayType \<Rightarrow> Some [Opt (I ArrayType_Len), Req (I ArrayType_Elt)]
      | KStructType \<Rightarrow> Some [Req (P StructType_Fields)]
      | KFuncType \<Rightarrow> Some [Opt (P FuncType_Params), Opt (P FuncType_Results)]
      | KInterfaceType \<Rightarrow> Some [Req (P InterfaceType_Methods)]
      | KMapType \<Rightarrow> Some [Req (I MapType_Key), Req (I MapType_Value)]
      | KChanType \<Rightarrow> Some [Req (I ChanType_Value)]
      | KBadStmt \<Rightarrow> Some []
      | KDeclStmt \<Rightarrow> Some [Req (I DeclStmt_Decl)]
      | KEmptyStmt \<Rightarrow> Some []
      | KLabeledStmt \<Rightarrow> Some [Req (P LabeledStmt_Label), Req (I LabeledStmt_Stmt)]
      | KExprStmt \<Rightarrow> Some [Req (I ExprStmt_X)]
      | KSendStmt \<Rightarrow> Some [Req (I SendStmt_Chan), Req (I SendStmt_Value)]
      | KIncDecStmt \<Rightarrow> Some [Req (I IncDecStmt_X)]
      | KAssignStmt \<Rightarrow> Some [ManyI AssignStmt_Lhs, ManyI AssignStmt_Rhs]
      | KGoStmt \<Rightarrow> Some [Req (P GoStmt_Call)]
      | KDeferStmt \<Rightarrow> Some [Req (P DeferStmt_Call)]
      | KReturnStmt \<Rightarrow> Some [ManyI ReturnStmt_Results]
      | KBranchStmt \<Rightarrow> Some [Opt (P BranchStmt_Label)]
      | KBlockStmt \<Rightarrow> Some [ManyI BlockStmt_List]
      | KIfStmt \<Rightarrow> Some [Opt (I IfStmt_Init), Req (I IfStmt_Cond), Req (P IfStmt_Body),
                          Opt (I IfStmt_Else)]
      | KCaseClause \<Rightarrow> Some [ManyI CaseClause_List, ManyI CaseClause_Body]
      | KSwitchStmt \<Rightarrow> Some [Opt (I SwitchStmt_Init), Opt (I SwitchStmt_Tag),
                              Req (P SwitchStmt_Body)]
      | KTypeSwitchStmt \<Rightarrow> Some [Opt (I TypeSwitchStmt_Init), Req (I TypeSwitchStmt_Assign),
                                  Req (P TypeSwitchStmt_Body)]
      | KCommClause \<Rightarrow> Some [Opt (I CommClause_Comm), ManyI CommClause_Body]
      | KSelectStmt \<Rightarrow> Some [Req (P SelectStmt_Body)]
      | KForStmt \<Rightarrow> Some [Opt (I ForStmt_Init), Opt (I ForStmt_Cond), Opt (I ForStmt_Post),
                           Req (P ForStmt_Body)]
      | KRangeStmt \<Rightarrow> Some [Opt (I RangeStmt_Key), Opt (I RangeStmt_Value), Req (I RangeStmt_X),
                             Req (P RangeStmt_Body)]
      | KImportSpec \<Rightarrow> Some [Opt (P ImportSpec_Doc), Opt (P ImportSpec_Name),
                              Req (P ImportSpec_Path), Opt (P ImportSpec_Comment)]
      | KValueSpec \<Rightarrow> Some [Opt (P ValueSpec_Doc), ManyP ValueSpec_Names, Opt (I ValueSpec_Type),
                             ManyI ValueSpec_Values, Opt (P ValueSpec_Comment)]
      | KTypeSpec \<Rightarrow> Some [Opt (P TypeSpec_Doc), Req (P TypeSpec_Name), Req (I TypeSpec_Type),
                            Opt (P TypeSpec_Comment)]
      | KBadDecl \<Rightarrow> Some []
      | KGenDecl \<Rightarrow> Some [Opt (P GenDecl_Doc), ManyI GenDecl_Specs]
      | KFuncDecl \<Rightarrow> Some [Opt (P FuncDecl_Doc), Opt (P FuncDecl_Recv), Req (P FuncDecl_Name),
                            Req (P FuncDecl_Type), Opt (P FuncDecl_Body)]
      | KFile \<Rightarrow> Some [Opt (P File_Doc), Req (P File_Name), ManyI File_Decls]
      | KPackage \<Rightarrow> Some [AllFiles]
      | KOther fams \<Rightarrow> None)"

text \<open>
  \<^verbatim>\<open>nukeComments(root)\<close>. The callback returns false at the nil interface; at a comment
  group it assigns \<^verbatim>\<open>n.List = nil\<close> and returns false; anywhere else it returns true and
  \<^verbatim>\<open>ast.Inspect\<close> goes on to the children. A nil pointer of a struct with fields makes that
  traversal read through nil, and a type outside go/ast makes it panic. The first argument
  bounds the depth of the recursion.
\<close>

fun nukeComments :: "nat \<Rightarrow> val \<Rightarrow> 'u world \<Rightarrow> 'u world outcome" where
  "nukeComments 0 root w = OutOfFuel"
| "nukeComments (Suc k) root w =
     (case root of
        Nil \<Rightarrow> Ok w
      | TNil kd \<Rightarrow>
          (if kd = KCommentGroup then Panic (NilDeref kd)
           else case astChildren kd of
                  None \<Rightarrow> Panic (InspectUnexpected kd)
                | Some cs \<Rightarrow> if cs = [] then Ok w else Panic (NilDeref kd))
      | Ptr kd a \<Rightarrow>
          (if kd = KCommentGroup then Ok (setPL CommentGroup_List a [] w)
           else case astChildren kd of
                  None \<Rightarrow> Panic (InspectUnexpected kd)
                | Some cs \<Rightarrow> foldO (nukeComments k) (concat (map (childVals w a) cs)) w))"

section \<open>The walker\<close>

text \<open>
  \<^verbatim>\<open>type WalkFunc func(ast.Node) (ast.Node, bool)\<close>. The visitor is a closure: it reads and
  writes the store and its own state. It is taken to return (a visitor that panics or
  loops is outside the model).
\<close>

type_synonym 'u WalkFunc = "val \<Rightarrow> 'u world \<Rightarrow> (val \<times> bool) \<times> 'u world"

type_synonym 'u walker = "val \<Rightarrow> 'u world \<Rightarrow> (val \<times> 'u world) outcome"

type_synonym 'u pruner = "val \<Rightarrow> 'u world \<Rightarrow> 'u world outcome"

subsection \<open>The list walkers\<close>

text \<open>
  The five functions \<^verbatim>\<open>walkIdentList\<close>, \<^verbatim>\<open>walkExprList\<close>, \<^verbatim>\<open>walkStmtList\<close>, \<^verbatim>\<open>walkDeclList\<close> and
  \<^verbatim>\<open>walkSpecList\<close> are one loop, at five element types:
  \<^verbatim>\<open>for _, x := range list { if v, ok := Walk(x, fn).(T); ok { out = append(out, v) } else { nukeComments(x) } }\<close>.
  \<open>walkNodeList\<close> is that loop, with the walker and the pruner as parameters. The slice is
  a value here: \<^verbatim>\<open>range\<close> reads the slice header once, the result is assigned to the field
  after the loop, and the reuse of the backing array (\<^verbatim>\<open>out = list[:0]\<close>) is not modelled.
\<close>

fun walkNodeList :: "'u walker \<Rightarrow> 'u pruner \<Rightarrow> target \<Rightarrow> val list \<Rightarrow> 'u world
    \<Rightarrow> (val list \<times> 'u world) outcome" where
  "walkNodeList W nk t [] w = Ok ([], w)"
| "walkNodeList W nk t (x # list) w =
     bindO (W x w) (\<lambda>(v, w1).
       if isA t v
       then bindO (walkNodeList W nk t list w1) (\<lambda>(out, w2). Ok (v # out, w2))
       else bindO (nk x w1) (\<lambda>w2. walkNodeList W nk t list w2))"

definition walkIdentList :: "'u walker \<Rightarrow> 'u pruner \<Rightarrow> addr option list \<Rightarrow> 'u world
    \<Rightarrow> (addr option list \<times> 'u world) outcome" where
  "walkIdentList W nk list w =
     bindO (walkNodeList W nk (ToPtr KIdent) (map (toNode KIdent) list) w)
       (\<lambda>(out, w'). Ok (map ptrOf out, w'))"

definition walkExprList :: "'u walker \<Rightarrow> 'u pruner \<Rightarrow> val list \<Rightarrow> 'u world
    \<Rightarrow> (val list \<times> 'u world) outcome" where
  "walkExprList W nk = walkNodeList W nk (ToIface FExpr)"

definition walkStmtList :: "'u walker \<Rightarrow> 'u pruner \<Rightarrow> val list \<Rightarrow> 'u world
    \<Rightarrow> (val list \<times> 'u world) outcome" where
  "walkStmtList W nk = walkNodeList W nk (ToIface FStmt)"

definition walkDeclList :: "'u walker \<Rightarrow> 'u pruner \<Rightarrow> val list \<Rightarrow> 'u world
    \<Rightarrow> (val list \<times> 'u world) outcome" where
  "walkDeclList W nk = walkNodeList W nk (ToIface FDecl)"

definition walkSpecList :: "'u walker \<Rightarrow> 'u pruner \<Rightarrow> val list \<Rightarrow> 'u world
    \<Rightarrow> (val list \<times> 'u world) outcome" where
  "walkSpecList W nk = walkNodeList W nk (ToIface FSpec)"

text \<open>
  The loop of the \<^verbatim>\<open>*ast.CommentGroup\<close> case:
  \<^verbatim>\<open>if c, _ = Walk(c, fn).(*ast.Comment); c != nil { out = append(out, c) }\<close>.
  A dropped comment is not pruned.
\<close>

fun walkCommentList :: "'u walker \<Rightarrow> addr option list \<Rightarrow> 'u world
    \<Rightarrow> (addr option list \<times> 'u world) outcome" where
  "walkCommentList W [] w = Ok ([], w)"
| "walkCommentList W (c # list) w =
     bindO (W (toNode KComment c) w) (\<lambda>(v, w1).
       if isA (ToPtr KComment) v \<and> ptrOf v \<noteq> None
       then bindO (walkCommentList W list w1) (\<lambda>(out, w2). Ok (ptrOf v # out, w2))
       else walkCommentList W list w1)"

text \<open>
  The loop of the \<^verbatim>\<open>*ast.Package\<close> case:
  \<^verbatim>\<open>for i, f := range n.Files { n.Files[i] = Walk(f, fn).(*ast.File) }\<close>.
\<close>

fun walkFiles :: "'u walker \<Rightarrow> addr \<Rightarrow> (string \<times> addr option) list \<Rightarrow> 'u world
    \<Rightarrow> (unit \<times> 'u world) outcome" where
  "walkFiles W a [] w = Ok ((), w)"
| "walkFiles W a ((i, f) # rest) w =
     bindO (W (toNode KFile f) w) (\<lambda>(v, w1).
       if isA (ToPtr KFile) v then walkFiles W a rest (setFile a i (ptrOf v) w1)
       else Panic (Conversion v (ToPtr KFile)))"

subsection \<open>The statements of the cases\<close>

text \<open>
  Every case of the \<^verbatim>\<open>switch\<close> in \<^verbatim>\<open>Walk\<close> is a sequence of a few statement forms, each about
  one field of the node \<^verbatim>\<open>n\<close>. They differ in the type assertion (unchecked, or with
  \<^verbatim>\<open>, ok\<close>), in what happens when it fails, and in whether the field is tested against nil
  first:

  \<^item> \<open>Assign\<close>: \<^verbatim>\<open>n.X = Walk(n.X, fn).(T)\<close>
  \<^item> \<open>AssignOk\<close>: \<^verbatim>\<open>n.X, _ = Walk(n.X, fn).(T)\<close>
  \<^item> \<open>AssignElseReturn\<close>: \<^verbatim>\<open>if v, ok := Walk(n.X, fn).(T); ok { n.X = v } else { return }\<close>
  \<^item> \<open>AssignOkReturnIfNil\<close>: \<^verbatim>\<open>if n.X, _ = Walk(n.X, fn).(T); n.X == nil { return }\<close>
  \<^item> \<open>AssignIfOk\<close>: \<^verbatim>\<open>if v, ok := Walk(n.X, fn).(T); ok { n.X = v }\<close>
  \<^item> \<open>Discard\<close>: \<^verbatim>\<open>Walk(n.X, fn)\<close>
  \<^item> \<open>IfPresent s st\<close>: \<^verbatim>\<open>if n.X != nil { st }\<close>
  \<^item> \<open>IdentList\<close>, \<open>ExprList\<close>, \<open>StmtList\<close>, \<open>DeclList\<close>: \<^verbatim>\<open>n.L = walkXList(n.L, fn)\<close>
  \<^item> \<open>SpecListReturnIfEmpty\<close>:
    \<^verbatim>\<open>if n.Specs = walkSpecList(n.Specs, fn); len(n.Specs) == 0 { return }\<close>
  \<^item> \<open>CommentList\<close>, \<open>FieldListBody\<close>, \<open>Files\<close>: the loops written out in the cases of
    \<^verbatim>\<open>*ast.CommentGroup\<close>, \<^verbatim>\<open>*ast.FieldList\<close> and \<^verbatim>\<open>*ast.Package\<close>.

  The asserted type \<open>T\<close> is the static type of the field, as Go's type checker requires
  of an assignment to it.
\<close>

datatype stmt =
    Assign slot
  | AssignOk slot
  | AssignElseReturn slot
  | AssignOkReturnIfNil slot
  | AssignIfOk slot
  | Discard slot
  | IfPresent slot stmt
  | IdentList plfield
  | ExprList ilfield
  | StmtList ilfield
  | DeclList ilfield
  | SpecListReturnIfEmpty ilfield
  | CommentList plfield
  | FieldListBody plfield
  | Files

text \<open>A statement falls through to the next one, or leaves \<^verbatim>\<open>Walk\<close> by a bare \<^verbatim>\<open>return\<close>.\<close>

datatype ctl = Next | Return

definition target :: "slot \<Rightarrow> target" where
  "target s = (case s of I f \<Rightarrow> ToIface (ifam f) | P f \<Rightarrow> ToPtr (pkind f))"

definition store :: "slot \<Rightarrow> addr \<Rightarrow> val \<Rightarrow> 'u world \<Rightarrow> 'u world" where
  "store s a v w = (case s of I f \<Rightarrow> setI f a v w | P f \<Rightarrow> setP f a (ptrOf v) w)"

text \<open>The value of \<^verbatim>\<open>v, _ = x.(T)\<close>: the zero value of \<open>T\<close> when the assertion fails.\<close>

definition commaOk :: "target \<Rightarrow> val \<Rightarrow> val" where
  "commaOk t v = (if isA t v then v else Nil)"

fun exec :: "'u walker \<Rightarrow> 'u pruner \<Rightarrow> addr \<Rightarrow> stmt \<Rightarrow> 'u world \<Rightarrow> (ctl \<times> 'u world) outcome"
where
  "exec W nk a (Assign s) w =
     bindO (W (load s a w) w) (\<lambda>(v, w1).
       if isA (target s) v then Ok (Next, store s a v w1)
       else Panic (Conversion v (target s)))"
| "exec W nk a (AssignOk s) w =
     bindO (W (load s a w) w) (\<lambda>(v, w1). Ok (Next, store s a (commaOk (target s) v) w1))"
| "exec W nk a (AssignElseReturn s) w =
     bindO (W (load s a w) w) (\<lambda>(v, w1).
       if isA (target s) v then Ok (Next, store s a v w1) else Ok (Return, w1))"
| "exec W nk a (AssignOkReturnIfNil s) w =
     bindO (W (load s a w) w) (\<lambda>(v, w1).
       if absent s a (store s a (commaOk (target s) v) w1)
       then Ok (Return, store s a (commaOk (target s) v) w1)
       else Ok (Next, store s a (commaOk (target s) v) w1))"
| "exec W nk a (AssignIfOk s) w =
     bindO (W (load s a w) w) (\<lambda>(v, w1).
       if isA (target s) v then Ok (Next, store s a v w1) else Ok (Next, w1))"
| "exec W nk a (Discard s) w =
     bindO (W (load s a w) w) (\<lambda>(v, w1). Ok (Next, w1))"
| "exec W nk a (IfPresent s st) w =
     (if absent s a w then Ok (Next, w) else exec W nk a st w)"
| "exec W nk a (IdentList f) w =
     bindO (walkIdentList W nk (plist w f a) w) (\<lambda>(out, w1). Ok (Next, setPL f a out w1))"
| "exec W nk a (ExprList f) w =
     bindO (walkExprList W nk (ilist w f a) w) (\<lambda>(out, w1). Ok (Next, setIL f a out w1))"
| "exec W nk a (StmtList f) w =
     bindO (walkStmtList W nk (ilist w f a) w) (\<lambda>(out, w1). Ok (Next, setIL f a out w1))"
| "exec W nk a (DeclList f) w =
     bindO (walkDeclList W nk (ilist w f a) w) (\<lambda>(out, w1). Ok (Next, setIL f a out w1))"
| "exec W nk a (SpecListReturnIfEmpty f) w =
     bindO (walkSpecList W nk (ilist w f a) w) (\<lambda>(out, w1).
       if length out = 0 then Ok (Return, setIL f a out w1) else Ok (Next, setIL f a out w1))"
| "exec W nk a (CommentList f) w =
     bindO (walkCommentList W (plist w f a) w) (\<lambda>(out, w1). Ok (Next, setPL f a out w1))"
| "exec W nk a (FieldListBody f) w =
     (if length (plist w f a) = 0 then Ok (Next, w)
      else bindO (walkNodeList W nk (ToPtr KField) (map (toNode KField) (plist w f a)) w)
             (\<lambda>(out, w1).
                if length out = 0 then Ok (Return, setPL f a (map ptrOf out) w1)
                else Ok (Next, setPL f a (map ptrOf out) w1)))"
| "exec W nk a Files w =
     bindO (walkFiles W a (files w a) w) (\<lambda>(u, w1). Ok (Next, w1))"

text \<open>Statements in sequence: a \<^verbatim>\<open>return\<close>, a panic or running out of depth ends the case.\<close>

fun block :: "('u world \<Rightarrow> (ctl \<times> 'u world) outcome) list \<Rightarrow> 'u world
    \<Rightarrow> (ctl \<times> 'u world) outcome" where
  "block [] w = Ok (Next, w)"
| "block (s # ss) w =
     bindO (s w) (\<lambda>(c, w1). case c of Next \<Rightarrow> block ss w1 | Return \<Rightarrow> Ok (Return, w1))"

subsection \<open>The cases of the switch\<close>

text \<open>
  \<open>slots k\<close> is the body of the case of \<^verbatim>\<open>Walk\<close> for the node type \<open>k\<close>, statement by
  statement in the order of the source; \<open>None\<close> is the \<^verbatim>\<open>default\<close> case.
\<close>

definition slots :: "kind \<Rightarrow> stmt list option" where
  "slots k =
     (case k of
        KComment \<Rightarrow> Some []
      | KCommentGroup \<Rightarrow> Some [CommentList CommentGroup_List]
      | KField \<Rightarrow> Some [IdentList Field_Names, AssignElseReturn (I Field_Type),
                         IfPresent (P Field_Tag) (AssignOk (P Field_Tag)),
                         IfPresent (P Field_Doc) (AssignOk (P Field_Doc)),
                         IfPresent (P Field_Comment) (AssignOk (P Field_Comment))]
      | KFieldList \<Rightarrow> Some [FieldListBody FieldList_List]
      | KBadExpr \<Rightarrow> Some [] | KIdent \<Rightarrow> Some [] | KBasicLit \<Rightarrow> Some []
      | KEllipsis \<Rightarrow> Some [AssignElseReturn (I Ellipsis_Elt)]
      | KFuncLit \<Rightarrow> Some [AssignElseReturn (P FuncLit_Type), Assign (P FuncLit_Body)]
      | KCompositeLit \<Rightarrow> Some [IfPresent (I CompositeLit_Type) (AssignOk (I CompositeLit_Type)),
                                ExprList CompositeLit_Elts]
      | KParenExpr \<Rightarrow> Some [Assign (I ParenExpr_X)]
      | KSelectorExpr \<Rightarrow> Some [Assign (I SelectorExpr_X), Assign (P SelectorExpr_Sel)]
      | KIndexExpr \<Rightarrow> Some [Assign (I IndexExpr_X), Assign (I IndexExpr_Index)]
      | KSliceExpr \<Rightarrow> Some [Assign (I SliceExpr_X),
                             IfPresent (I SliceExpr_Low) (Assign (I SliceExpr_Low)),
                             IfPresent (I SliceExpr_High) (Assign (I SliceExpr_High)),
                             IfPresent (I SliceExpr_Max) (Assign (I SliceExpr_Max))]
      | KTypeAssertExpr \<Rightarrow> Some [Assign (I TypeAssertExpr_X),
                                  IfPresent (I TypeAssertExpr_Type) (Assign (I TypeAssertExpr_Type))]
      | KCallExpr \<Rightarrow> Some [AssignOkReturnIfNil (I CallExpr_Fun), ExprList CallExpr_Args]
      | KStarExpr \<Rightarrow> Some [Assign (I StarExpr_X)]
      | KUnaryExpr \<Rightarrow> Some [Assign (I UnaryExpr_X)]
      | KBinaryExpr \<Rightarrow> Some [Assign (I BinaryExpr_X), Assign (I BinaryExpr_Y)]
      | KKeyValueExpr \<Rightarrow> Some [Assign (I KeyValueExpr_Key), Assign (I KeyValueExpr_Value)]
      | KArrayType \<Rightarrow> Some [AssignIfOk (I ArrayType_Len), AssignElseReturn (I ArrayType_Elt)]
      | KStructType \<Rightarrow> Some [AssignOkReturnIfNil (P StructType_Fields)]
      | KFuncType \<Rightarrow> Some [IfPresent (P FuncType_Params) (AssignOk (P FuncType_Params)),
                            IfPresent (P FuncType_Results) (AssignOk (P FuncType_Results))]
      | KInterfaceType \<Rightarrow> Some [AssignOk (P InterfaceType_Methods)]
      | KMapType \<Rightarrow> Some [AssignOkReturnIfNil (I MapType_Key), AssignOkReturnIfNil (I MapType_Value)]
      | KChanType \<Rightarrow> Some [AssignOkReturnIfNil (I ChanType_Value)]
      | KBadStmt \<Rightarrow> Some []
      | KDeclStmt \<Rightarrow> Some [AssignOkReturnIfNil (I DeclStmt_Decl)]
      | KEmptyStmt \<Rightarrow> Some []
      | KLabeledStmt \<Rightarrow> Some [Assign (P LabeledStmt_Label), Assign (I LabeledStmt_Stmt)]
      | KExprStmt \<Rightarrow> Some [AssignOkReturnIfNil (I ExprStmt_X)]
      | KSendStmt \<Rightarrow> Some [Assign (I SendStmt_Chan), Assign (I SendStmt_Value)]
      | KIncDecStmt \<Rightarrow> Some [Assign (I IncDecStmt_X)]
      | KAssignStmt \<Rightarrow> Some [ExprList AssignStmt_Lhs, ExprList AssignStmt_Rhs]
      | KGoStmt \<Rightarrow> Some [Assign (P GoStmt_Call)]
      | KDeferStmt \<Rightarrow> Some [Assign (P DeferStmt_Call)]
      | KReturnStmt \<Rightarrow> Some [ExprList ReturnStmt_Results]
      | KBranchStmt \<Rightarrow> Some [IfPresent (P BranchStmt_Label) (Assign (P BranchStmt_Label))]
      | KBlockStmt \<Rightarrow> Some [StmtList BlockStmt_List]
      | KIfStmt \<Rightarrow> Some [IfPresent (I IfStmt_Init) (Assign (I IfStmt_Init)),
                          Assign (I IfStmt_Cond), Assign (P IfStmt_Body),
                          IfPresent (I IfStmt_Else) (Assign (I IfStmt_Else))]
      | KCaseClause \<Rightarrow> Some [ExprList CaseClause_List, StmtList CaseClause_Body]
      | KSwitchStmt \<Rightarrow> Some [IfPresent (I SwitchStmt_Init) (Assign (I SwitchStmt_Init)),
                              IfPresent (I SwitchStmt_Tag) (Assign (I SwitchStmt_Tag)),
                              Assign (P SwitchStmt_Body)]
      | KTypeSwitchStmt \<Rightarrow> Some [IfPresent (I TypeSwitchStmt_Init) (Assign (I TypeSwitchStmt_Init)),
                                  Assign (I TypeSwitchStmt_Assign), Assign (P TypeSwitchStmt_Body)]
      | KCommClause \<Rightarrow> Some [IfPresent (I CommClause_Comm) (AssignOk (I CommClause_Comm)),
                              StmtList CommClause_Body]
      | KSelectStmt \<Rightarrow> Some [Assign (P SelectStmt_Body)]
      | KForStmt \<Rightarrow> Some [IfPresent (I ForStmt_Init) (Assign (I ForStmt_Init)),
                           IfPresent (I ForStmt_Cond) (Assign (I ForStmt_Cond)),
                           IfPresent (I ForStmt_Post) (Assign (I ForStmt_Post)),
                           Assign (P ForStmt_Body)]
      | KRangeStmt \<Rightarrow> Some [IfPresent (I RangeStmt_Key) (Assign (I RangeStmt_Key)),
                             IfPresent (I RangeStmt_Value) (Assign (I RangeStmt_Value)),
                             Assign (I RangeStmt_X), Assign (P RangeStmt_Body)]
      | KImportSpec \<Rightarrow> Some [IfPresent (P ImportSpec_Doc) (Assign (P ImportSpec_Doc)),
                              IfPresent (P ImportSpec_Name) (Assign (P ImportSpec_Name)),
                              Assign (P ImportSpec_Path),
                              IfPresent (P ImportSpec_Comment) (Assign (P ImportSpec_Comment))]
      | KValueSpec \<Rightarrow> Some [IfPresent (P ValueSpec_Doc) (Assign (P ValueSpec_Doc)),
                             IdentList ValueSpec_Names,
                             IfPresent (I ValueSpec_Type) (Assign (I ValueSpec_Type)),
                             ExprList ValueSpec_Values,
                             IfPresent (P ValueSpec_Comment) (Assign (P ValueSpec_Comment))]
      | KTypeSpec \<Rightarrow> Some [Discard (P TypeSpec_Name), Discard (I TypeSpec_Type),
                            IfPresent (P TypeSpec_Comment) (Assign (P TypeSpec_Comment))]
      | KBadDecl \<Rightarrow> Some []
      | KGenDecl \<Rightarrow> Some [SpecListReturnIfEmpty GenDecl_Specs,
                           IfPresent (P GenDecl_Doc) (Assign (P GenDecl_Doc))]
      | KFuncDecl \<Rightarrow> Some [AssignOk (P FuncDecl_Doc), AssignElseReturn (P FuncDecl_Recv),
                            Assign (P FuncDecl_Name), Assign (P FuncDecl_Type),
                            IfPresent (P FuncDecl_Body) (Assign (P FuncDecl_Body))]
      | KFile \<Rightarrow> Some [IfPresent (P File_Doc) (Assign (P File_Doc)), Assign (P File_Name),
                        DeclList File_Decls]
      | KPackage \<Rightarrow> Some [Files]
      | KOther fams \<Rightarrow> None)"

definition walkChildren :: "'u walker \<Rightarrow> 'u pruner \<Rightarrow> kind \<Rightarrow> addr \<Rightarrow> 'u world
    \<Rightarrow> (ctl \<times> 'u world) outcome" where
  "walkChildren W nk kd a w =
     (case slots kd of
        None \<Rightarrow> Panic (UnexpectedNode kd)
      | Some ss \<Rightarrow> block (map (exec W nk a) ss) w)"

subsection \<open>Walk\<close>

text \<open>
  \<^verbatim>\<open>func Walk(node ast.Node, fn WalkFunc) (ret ast.Node)\<close>. A node that is not a pointer to
  an object is one for which \<^verbatim>\<open>isNil\<close> holds, and is returned as it is. Otherwise the
  visitor is called; without its consent to descend its result is returned; with it, the
  case of the \<^bold>\<open>original\<close> node runs. A bare \<^verbatim>\<open>return\<close> inside the case returns the zero value
  of the named result \<^verbatim>\<open>ret\<close>, the nil interface, and skips \<^verbatim>\<open>fn(nil)\<close>. The first argument
  bounds the depth of the recursion.
\<close>

fun Walk :: "nat \<Rightarrow> 'u WalkFunc \<Rightarrow> val \<Rightarrow> 'u world \<Rightarrow> (val \<times> 'u world) outcome" where
  "Walk 0 fn node w = OutOfFuel"
| "Walk (Suc k) fn node w =
     (case node of
        Ptr kd a \<Rightarrow>
          (case fn node w of
             ((rewritten, ok), w1) \<Rightarrow>
               if \<not> ok then Ok (rewritten, w1)
               else bindO (walkChildren (Walk k fn) (nukeComments k) kd a w1) (\<lambda>(c, w2).
                      case c of
                        Return \<Rightarrow> Ok (Nil, w2)
                      | Next \<Rightarrow> Ok (rewritten, snd (fn Nil w2))))
      | _ \<Rightarrow> Ok (node, w))"

section \<open>Observations, sample visitors and sample trees\<close>

text \<open>What a call returned, and the store it left, when it returned.\<close>

definition returned :: "('a \<times> 'u world) outcome \<Rightarrow> 'a outcome" where
  "returned r = (case r of Ok (v, w) \<Rightarrow> Ok v | Panic p \<Rightarrow> Panic p | OutOfFuel \<Rightarrow> OutOfFuel)"

definition final :: "('a \<times> 'u world) outcome \<Rightarrow> 'u world option" where
  "final r = (case r of Ok (v, w) \<Rightarrow> Some w | Panic p \<Rightarrow> None | OutOfFuel \<Rightarrow> None)"


text \<open>Readers of single fields, and an observation of the store a call left.\<close>

definition readI :: "ifield \<Rightarrow> addr \<Rightarrow> 'u world \<Rightarrow> val" where
  "readI f a w = iface w f a"

definition readP :: "pfield \<Rightarrow> addr \<Rightarrow> 'u world \<Rightarrow> addr option" where
  "readP f a w = ptr w f a"

definition readIL :: "ilfield \<Rightarrow> addr \<Rightarrow> 'u world \<Rightarrow> val list" where
  "readIL f a w = ilist w f a"

definition readPL :: "plfield \<Rightarrow> addr \<Rightarrow> 'u world \<Rightarrow> addr option list" where
  "readPL f a w = plist w f a"

definition after :: "('u world \<Rightarrow> 'b) \<Rightarrow> ('a \<times> 'u world) outcome \<Rightarrow> 'b option" where
  "after obs r = map_option obs (final r)"

text \<open>The store in which every field of every object is nil or empty.\<close>

definition emptyWorld :: "'u \<Rightarrow> 'u world" where
  "emptyWorld u = \<lparr>iface = (\<lambda>f a. Nil), ptr = (\<lambda>f a. None), ilist = (\<lambda>f a. []),
     plist = (\<lambda>f a. []), files = (\<lambda>a. []), user = u\<rparr>"

text \<open>
  A visitor given by a table: a listed node gets the listed answer, any other node is
  returned unchanged with \<^verbatim>\<open>true\<close>. It appends every argument it is called with, the nil
  of the post-order call included, to its own state.
\<close>

definition scripted :: "(val \<times> val \<times> bool) list \<Rightarrow> val list WalkFunc" where
  "scripted tbl node w =
     (case map_of tbl node of
        Some answer \<Rightarrow> (answer, w\<lparr>user := user w @ [node]\<rparr>)
      | None \<Rightarrow> ((node, True), w\<lparr>user := user w @ [node]\<rparr>))"


definition collection :: "stmt \<Rightarrow> addr \<Rightarrow> 'u world \<Rightarrow> val list" where
  "collection st a w =
     (case st of
        IdentList f \<Rightarrow> map (toNode KIdent) (plist w f a)
      | ExprList f \<Rightarrow> ilist w f a
      | StmtList f \<Rightarrow> ilist w f a
      | DeclList f \<Rightarrow> ilist w f a
      | SpecListReturnIfEmpty f \<Rightarrow> ilist w f a
      | CommentList f \<Rightarrow> map (toNode KComment) (plist w f a)
      | FieldListBody f \<Rightarrow> map (toNode KField) (plist w f a)
      | _ \<Rightarrow> [])"

definition kept :: "stmt \<Rightarrow> val \<Rightarrow> bool" where
  "kept st v =
     (case st of
        IdentList f \<Rightarrow> isA (ToPtr KIdent) v
      | ExprList f \<Rightarrow> isA (ToIface FExpr) v
      | StmtList f \<Rightarrow> isA (ToIface FStmt) v
      | DeclList f \<Rightarrow> isA (ToIface FDecl) v
      | SpecListReturnIfEmpty f \<Rightarrow> isA (ToIface FSpec) v
      | CommentList f \<Rightarrow> isA (ToPtr KComment) v \<and> ptrOf v \<noteq> None
      | FieldListBody f \<Rightarrow> isA (ToPtr KField) v
      | _ \<Rightarrow> False)"


text \<open>Sample trees: a call \<^verbatim>\<open>f(a, b, c)\<close>, and a parenthesis around a node of a foreign type.\<close>

definition callThreeArgs :: "val list world" where
  "callThreeArgs =
     setI CallExpr_Fun 1 (Ptr KIdent 5)
       (setIL CallExpr_Args 1 [Ptr KIdent 2, Ptr KIdent 3, Ptr KIdent 4] (emptyWorld []))"



text \<open>
  More sample trees: \<^verbatim>\<open>(x)\<close>; \<^verbatim>\<open>map[k]v\<close>; an \<^verbatim>\<open>if\<close> statement with an init statement; a struct
  field with a name, a type, a tag and a doc comment; \<^verbatim>\<open>import\<close> declarations with one and
  with two specifications; \<^verbatim>\<open>...x\<close>; a file with \<^verbatim>\<open>type T interface { m() // c }\<close> whose
  comment group is referenced by the method and by \<^verbatim>\<open>File.Comments\<close>; and the call \<^verbatim>\<open>f(a, b, c)\<close> next to a
  second call \<^verbatim>\<open>g(d)\<close> at address 7; an interface type with a method list; \<^verbatim>\<open>[n]T\<close>.
\<close>

definition parenIdent :: "val list world" where
  "parenIdent = setI ParenExpr_X 1 (Ptr KIdent 2) (emptyWorld [])"

definition mapKeyValue :: "val list world" where
  "mapKeyValue = setI MapType_Key 1 (Ptr KIdent 2) (setI MapType_Value 1 (Ptr KIdent 3) (emptyWorld []))"

definition ifWithInit :: "val list world" where
  "ifWithInit =
     setI IfStmt_Init 1 (Ptr KExprStmt 2) (setI ExprStmt_X 2 (Ptr KIdent 5)
       (setI IfStmt_Cond 1 (Ptr KIdent 3) (setP IfStmt_Body 1 (Some 4) (emptyWorld []))))"

definition fieldTagged :: "val list world" where
  "fieldTagged =
     setPL Field_Names 1 [Some 2] (setI Field_Type 1 (Ptr KIdent 3)
       (setP Field_Tag 1 (Some 4) (setP Field_Doc 1 (Some 5)
         (setPL CommentGroup_List 5 [Some 6] (emptyWorld [])))))"

definition declOneSpec :: "val list world" where
  "declOneSpec =
     setIL GenDecl_Specs 1 [Ptr KImportSpec 2] (setP ImportSpec_Path 2 (Some 4) (emptyWorld []))"

definition declTwoSpecs :: "val list world" where
  "declTwoSpecs =
     setIL GenDecl_Specs 1 [Ptr KImportSpec 2, Ptr KImportSpec 3]
       (setP ImportSpec_Path 2 (Some 4) (setP ImportSpec_Path 3 (Some 5) (emptyWorld [])))"

definition ellipsisIdent :: "val list world" where
  "ellipsisIdent = setI Ellipsis_Elt 1 (Ptr KIdent 2) (emptyWorld [])"

definition fileWithMethodComment :: "val list world" where
  "fileWithMethodComment =
     setP File_Name 1 (Some 2) (setIL File_Decls 1 [Ptr KGenDecl 3]
       (setPL File_Comments 1 [Some 10]
       (setIL GenDecl_Specs 3 [Ptr KTypeSpec 4]
       (setP TypeSpec_Name 4 (Some 5) (setI TypeSpec_Type 4 (Ptr KInterfaceType 6)
       (setP InterfaceType_Methods 6 (Some 7)
       (setPL FieldList_List 7 [Some 8]
       (setPL Field_Names 8 [Some 9] (setI Field_Type 8 (Ptr KFuncType 12)
       (setP Field_Comment 8 (Some 10)
       (setP FuncType_Params 12 (Some 13)
       (setPL CommentGroup_List 10 [Some 11] (emptyWorld [])))))))))))))"


definition interfaceMethods :: "val list world" where
  "interfaceMethods = setP InterfaceType_Methods 1 (Some 2) (emptyWorld [])"

definition arrayWithLen :: "val list world" where
  "arrayWithLen =
     setI ArrayType_Len 1 (Ptr KBasicLit 2) (setI ArrayType_Elt 1 (Ptr KIdent 3) (emptyWorld []))"

definition callAndReplacement :: "val list world" where
  "callAndReplacement =
     setI CallExpr_Fun 7 (Ptr KIdent 8) (setIL CallExpr_Args 7 [Ptr KIdent 9] callThreeArgs)"

subsection \<open>What one level of a walk does to the store\<close>

text \<open>
  \<open>onlyAt a w w'\<close>: the two stores agree on every field of every object at an address
  other than \<open>a\<close>, and on the visitor's state. \<open>steps W nk a w w'\<close>: the store \<open>w'\<close> is reached
  from \<open>w\<close> by calls of the walker, calls of the pruner and assignments to fields of the
  object at \<open>a\<close>.
\<close>

definition onlyAt :: "addr \<Rightarrow> 'u world \<Rightarrow> 'u world \<Rightarrow> bool" where
  "onlyAt a w w' =
     (user w' = user w \<and>
      (\<forall>b. b \<noteq> a \<longrightarrow>
        (\<forall>f. iface w' f b = iface w f b) \<and> (\<forall>f. ptr w' f b = ptr w f b) \<and>
        (\<forall>f. ilist w' f b = ilist w f b) \<and> (\<forall>f. plist w' f b = plist w f b) \<and>
        files w' b = files w b))"

inductive steps :: "'u walker \<Rightarrow> 'u pruner \<Rightarrow> addr \<Rightarrow> 'u world \<Rightarrow> 'u world \<Rightarrow> bool"
  for W :: "'u walker" and nk :: "'u pruner" and a :: addr
where
  same: "steps W nk a w w"
| walked: "steps W nk a w w1 \<Longrightarrow> W x w1 = Ok (v, w2) \<Longrightarrow> steps W nk a w w2"
| pruned: "steps W nk a w w1 \<Longrightarrow> nk x w1 = Ok w2 \<Longrightarrow> steps W nk a w w2"
| assigned: "steps W nk a w w1 \<Longrightarrow> onlyAt a w1 w2 \<Longrightarrow> steps W nk a w w2"

subsection \<open>Auxiliary notions\<close>

text \<open>
  \<open>approx r r'\<close>: the outcome \<open>r'\<close> agrees with \<open>r\<close> unless \<open>r\<close> is the exhaustion of the depth
  bound. \<open>cascadingSlots\<close> and \<open>clearedSlots\<close> name the slots of the two statement forms that
  turn a removed child into the removal of the node, and into a nil slot.
\<close>

definition approx :: "'a outcome \<Rightarrow> 'a outcome \<Rightarrow> bool" where
  "approx r r' = (r = OutOfFuel \<or> r' = r)"

definition cascadingSlots :: "(kind \<times> slot) list" where
  "cascadingSlots =
     [(KField, I Field_Type), (KEllipsis, I Ellipsis_Elt), (KFuncLit, P FuncLit_Type),
      (KCallExpr, I CallExpr_Fun), (KArrayType, I ArrayType_Elt),
      (KStructType, P StructType_Fields), (KMapType, I MapType_Key),
      (KMapType, I MapType_Value), (KChanType, I ChanType_Value), (KDeclStmt, I DeclStmt_Decl),
      (KExprStmt, I ExprStmt_X), (KFuncDecl, P FuncDecl_Recv)]"

definition clearedSlots :: "(kind \<times> slot) list" where
  "clearedSlots =
     [(KField, P Field_Tag), (KField, P Field_Doc), (KField, P Field_Comment),
      (KCompositeLit, I CompositeLit_Type), (KFuncType, P FuncType_Params),
      (KFuncType, P FuncType_Results), (KCommClause, I CommClause_Comm)]"

section \<open>Basic facts\<close>

lemma isNil_iff: "isNil v \<longleftrightarrow> (\<forall>kd a. v \<noteq> Ptr kd a)"
  by (cases v) (simp_all add: isNil_def)

lemma bindO_Ok [simp]: "bindO (Ok x) f = f x"
  and bindO_Panic [simp]: "bindO (Panic p) f = Panic p"
  and bindO_OutOfFuel [simp]: "bindO OutOfFuel f = OutOfFuel"
  by (simp_all add: bindO_def)

lemma bindO_eq_Ok: "bindO m f = Ok y \<longleftrightarrow> (\<exists>x. m = Ok x \<and> f x = Ok y)"
  by (cases m) simp_all


lemma isA_Nil [simp]: "\<not> isA t Nil"
  by (simp add: isA_def dynKind_def)

lemma commaOk_Nil [simp]: "commaOk t Nil = Nil"
  by (simp add: commaOk_def)


lemma block_append:
  "block (ss @ ts) w =
     bindO (block ss w) (\<lambda>(c, w1). case c of Next \<Rightarrow> block ts w1 | Return \<Rightarrow> Ok (Return, w1))"
proof (induction ss arbitrary: w)
  case Nil
  show ?case by simp
next
  case (Cons s ss)
  show ?case
    by (cases "s w") (auto simp: Cons.IH split: ctl.splits)
qed

lemma Walk_descend:
  "fn (Ptr kd a) w = ((r, True), w1) \<Longrightarrow>
   Walk (Suc k) fn (Ptr kd a) w =
     bindO (walkChildren (Walk k fn) (nukeComments k) kd a w1) (\<lambda>(c, w2).
       case c of Return \<Rightarrow> Ok (Nil, w2) | Next \<Rightarrow> Ok (r, snd (fn Nil w2)))"
  by simp

lemma walkChildren_split:
  assumes "slots kd = Some (pre @ st # post)"
    and "block (map (exec W nk a) pre) w = Ok (Next, w1)"
  shows "walkChildren W nk kd a w =
     bindO (exec W nk a st w1) (\<lambda>(c, w2).
       case c of Next \<Rightarrow> block (map (exec W nk a) post) w2 | Return \<Rightarrow> Ok (Return, w2))"
  using assms by (simp add: walkChildren_def block_append)

lemma absent_store_Nil [simp]: "absent s a (store s a Nil w)"
  by (cases s) (simp_all add: absent_def store_def setI_def setP_def ptrOf_def)


lemma store_frame [simp]:
  "ilist (store s a v w) = ilist w" "plist (store s a v w) = plist w"
  "files (store s a v w) = files w" "user (store s a v w) = user w"
  by (cases s; simp add: store_def setI_def setP_def)+

text \<open>The definitions that a run on a sample tree unfolds.\<close>

lemmas walk_eval =
  emptyWorld_def scripted_def returned_def final_def
  setP_def setI_def setIL_def setPL_def setFile_def
  walkChildren_def slots_def walkSpecList_def walkExprList_def walkStmtList_def
  walkDeclList_def walkIdentList_def load_def store_def absent_def target_def commaOk_def
  isA_def dynKind_def implements_def toNode_def ptrOf_def pkind_def ifam_def plkind_def
  exprKinds_def stmtKinds_def astChildren_def childVals_def

lemmas sample_eval = walk_eval readI_def readP_def readIL_def readPL_def after_def
  parenIdent_def mapKeyValue_def ifWithInit_def fieldTagged_def declOneSpec_def
  declTwoSpecs_def ellipsisIdent_def fileWithMethodComment_def callThreeArgs_def
  callAndReplacement_def interfaceMethods_def arrayWithLen_def collection_def

section \<open>The depth bound\<close>

text \<open>
  The first argument of \<open>Walk\<close> and of \<open>nukeComments\<close> only bounds the depth of the recursion:
  an outcome other than \<open>OutOfFuel\<close> is the outcome at every larger bound.
\<close>

lemma approx_refl [simp]: "approx r r"
  by (simp add: approx_def)

lemma approx_OutOfFuel [simp]: "approx OutOfFuel r"
  by (simp add: approx_def)

lemma bindO_approx:
  assumes "approx m m'" and "\<And>x. approx (f x) (f' x)"
  shows "approx (bindO m f) (bindO m' f')"
proof (cases m)
  case (Ok x)
  with assms(1) have "m' = Ok x" by (simp add: approx_def)
  with Ok assms(2) [of x] show ?thesis by simp
next
  case (Panic p)
  with assms(1) have "m' = Panic p" by (simp add: approx_def)
  with Panic show ?thesis by simp
next
  case OutOfFuel
  then show ?thesis by simp
qed

lemma foldO_approx:
  assumes "\<And>x s. approx (f x s) (f' x s)"
  shows "approx (foldO f xs s) (foldO f' xs s)"
proof (induction xs arbitrary: s)
  case Nil
  show ?case by simp
next
  case (Cons x xs)
  show ?case
    unfolding foldO.simps by (rule bindO_approx) (rule assms, rule Cons.IH)
qed

lemma nukeComments_mono: "approx (nukeComments k x w) (nukeComments (Suc k) x w)"
proof (induction k arbitrary: x w)
  case 0
  show ?case by simp
next
  case (Suc k)
  show ?case
  proof (cases x)
    case (Ptr kd a)
    show ?thesis
    proof (cases "kd = KCommentGroup")
      case True
      with Ptr show ?thesis by simp
    next
      case False
      show ?thesis
      proof (cases "astChildren kd")
        case None
        with Ptr False show ?thesis by simp
      next
        case (Some cs)
        have "approx (foldO (nukeComments k) (concat (map (childVals w a) cs)) w)
                (foldO (nukeComments (Suc k)) (concat (map (childVals w a) cs)) w)"
          by (rule foldO_approx) (rule Suc.IH)
        with Ptr False Some show ?thesis by simp
      qed
    qed
  qed simp_all
qed

lemma walkNodeList_approx:
  assumes "\<And>x w. approx (W x w) (W' x w)" and "\<And>x w. approx (nk x w) (nk' x w)"
  shows "approx (walkNodeList W nk t xs w) (walkNodeList W' nk' t xs w)"
proof (induction xs arbitrary: w)
  case Nil
  show ?case by simp
next
  case (Cons x xs)
  show ?case
    unfolding walkNodeList.simps
  proof (rule bindO_approx [OF assms(1)])
    fix r :: "val \<times> 'a world"
    obtain v w1 where r: "r = (v, w1)" by (cases r)
    show "approx
        (case r of (v, w1) \<Rightarrow>
           if isA t v then bindO (walkNodeList W nk t xs w1) (\<lambda>(out, w2). Ok (v # out, w2))
           else bindO (nk x w1) (walkNodeList W nk t xs))
        (case r of (v, w1) \<Rightarrow>
           if isA t v then bindO (walkNodeList W' nk' t xs w1) (\<lambda>(out, w2). Ok (v # out, w2))
           else bindO (nk' x w1) (walkNodeList W' nk' t xs))"
      unfolding r prod.case
      by (auto intro!: bindO_approx assms(2) Cons.IH)
  qed
qed

lemma walkCommentList_approx:
  assumes "\<And>x w. approx (W x w) (W' x w)"
  shows "approx (walkCommentList W cs w) (walkCommentList W' cs w)"
proof (induction cs arbitrary: w)
  case Nil
  show ?case by simp
next
  case (Cons c cs)
  show ?case
    unfolding walkCommentList.simps
    by (rule bindO_approx [OF assms]) (auto intro!: bindO_approx Cons.IH)
qed

lemma walkFiles_approx:
  assumes "\<And>x w. approx (W x w) (W' x w)"
  shows "approx (walkFiles W a fs w) (walkFiles W' a fs w)"
proof (induction fs arbitrary: w)
  case Nil
  show ?case by simp
next
  case (Cons e fs)
  obtain i f where e: "e = (i, f)" by (cases e)
  show ?case
    unfolding e walkFiles.simps
    by (rule bindO_approx [OF assms]) (auto intro!: Cons.IH)
qed

lemma exec_approx:
  assumes W: "\<And>x w. approx (W x w) (W' x w)" and nk: "\<And>x w. approx (nk x w) (nk' x w)"
  shows "approx (exec W nk a st w) (exec W' nk' a st w)"
proof (induction st)
  case (IfPresent s st)
  then show ?case by simp
next
  case (IdentList f)
  show ?case
    unfolding exec.simps walkIdentList_def
    by (intro bindO_approx walkNodeList_approx W nk) auto
next
  case (ExprList f)
  show ?case
    unfolding exec.simps walkExprList_def
    by (intro bindO_approx walkNodeList_approx W nk) auto
next
  case (StmtList f)
  show ?case
    unfolding exec.simps walkStmtList_def
    by (intro bindO_approx walkNodeList_approx W nk) auto
next
  case (DeclList f)
  show ?case
    unfolding exec.simps walkDeclList_def
    by (intro bindO_approx walkNodeList_approx W nk) auto
next
  case (SpecListReturnIfEmpty f)
  show ?case
    unfolding exec.simps walkSpecList_def
    by (intro bindO_approx walkNodeList_approx W nk) auto
next
  case (CommentList f)
  show ?case
    unfolding exec.simps
    by (intro bindO_approx walkCommentList_approx W) auto
next
  case (FieldListBody f)
  show ?case
    unfolding exec.simps
    by (auto intro!: bindO_approx walkNodeList_approx W nk)
next
  case Files
  show ?case
    unfolding exec.simps
    by (intro bindO_approx walkFiles_approx W) auto
qed (auto intro!: bindO_approx W)

lemma block_approx:
  assumes "\<And>st w. approx (exec W nk a st w) (exec W' nk' a st w)"
  shows "approx (block (map (exec W nk a) ss) w) (block (map (exec W' nk' a) ss) w)"
proof (induction ss arbitrary: w)
  case Nil
  show ?case by simp
next
  case (Cons st ss)
  show ?case
    unfolding list.map block.simps
    by (rule bindO_approx [OF assms]) (auto split: ctl.splits intro: Cons.IH)
qed

lemma Walk_mono: "approx (Walk k fn x w) (Walk (Suc k) fn x w)"
proof (induction k arbitrary: x w)
  case 0
  show ?case by simp
next
  case (Suc k)
  have ex: "\<And>a st w. approx (exec (Walk k fn) (nukeComments k) a st w)
      (exec (Walk (Suc k) fn) (nukeComments (Suc k)) a st w)"
    by (rule exec_approx) (rule Suc.IH, rule nukeComments_mono)
  have wc: "\<And>kd a w. approx (walkChildren (Walk k fn) (nukeComments k) kd a w)
      (walkChildren (Walk (Suc k) fn) (nukeComments (Suc k)) kd a w)"
    unfolding walkChildren_def
    by (auto split: option.splits intro: block_approx ex)
  show ?case
  proof (cases x)
    case (Ptr kd a)
    obtain r ok w1 where fn: "fn x w = ((r, ok), w1)" by (metis prod.exhaust)
    show ?thesis
    proof (cases ok)
      case True
      have "approx
         (bindO (walkChildren (Walk k fn) (nukeComments k) kd a w1) (\<lambda>(c, w2).
            case c of Return \<Rightarrow> Ok (Nil, w2) | Next \<Rightarrow> Ok (r, snd (fn Nil w2))))
         (bindO (walkChildren (Walk (Suc k) fn) (nukeComments (Suc k)) kd a w1) (\<lambda>(c, w2).
            case c of Return \<Rightarrow> Ok (Nil, w2) | Next \<Rightarrow> Ok (r, snd (fn Nil w2))))"
        by (rule bindO_approx [OF wc]) simp
      with Ptr fn True show ?thesis by simp
    next
      case False
      with Ptr fn show ?thesis by simp
    qed
  qed simp_all
qed

lemma Walk_more_fuel:
  assumes "Walk k fn x w = r" and "r \<noteq> OutOfFuel"
  shows "Walk (k + n) fn x w = r"
proof (induction n)
  case 0
  from assms(1) show ?case by simp
next
  case (Suc n)
  from Walk_mono [of "k + n" fn x w] Suc assms(2) show ?case
    by (simp add: approx_def)
qed

section \<open>The identity visitor\<close>

text \<open>
  Claim C8: a visitor that returns every node unchanged with \<^verbatim>\<open>true\<close> leaves the tree as it
  was and \<^verbatim>\<open>Walk\<close> returns its root. The code does not do so for a declaration without
  specifications (\<^verbatim>\<open>import ()\<close>, \<^verbatim>\<open>var ()\<close>): \<^verbatim>\<open>len(n.Specs) == 0\<close> holds after the loop although
  nothing was removed, and \<^verbatim>\<open>Walk\<close> returns nil. The case of \<^verbatim>\<open>*ast.FieldList\<close> guards against
  exactly this with \<^verbatim>\<open>if len(n.List) == 0 { break }\<close>. The theorem runs the code on such a
  declaration and on an empty field list, at any depth bound that lets it start.
\<close>

theorem identity_removes_empty_GenDecl:
  "returned (Walk (Suc k) (scripted []) (Ptr KGenDecl 1) (emptyWorld [])) = Ok Nil
   \<and> returned (Walk (Suc k) (scripted []) (Ptr KFieldList 1) (emptyWorld []))
       = Ok (Ptr KFieldList 1)"
  by (simp add: walk_eval)

section \<open>Where a panic comes from\<close>










section \<open>Unknown node types\<close>





section \<open>Order of the survivors\<close>

lemma kept_Nil [simp]: "\<not> kept st Nil"
  by (cases st) (simp_all add: kept_def)




lemma walkNodeList_results:
  "walkNodeList W nk t xs w = Ok (out, w') \<Longrightarrow>
   \<exists>rs. list_all2 (\<lambda>x r. \<exists>wa wb. W x wa = Ok (r, wb)) xs rs \<and> out = filter (isA t) rs"
proof (induction xs arbitrary: w out)
  case Nil
  then show ?case by simp
next
  case (Cons x xs)
  from Cons.prems obtain v w1 where W: "W x w = Ok (v, w1)"
    by (cases "W x w") auto
  show ?case
  proof (cases "isA t v")
    case True
    with Cons.prems W obtain out' where
      rest: "walkNodeList W nk t xs w1 = Ok (out', w')" and out: "out = v # out'"
      by (cases "walkNodeList W nk t xs w1") auto
    from Cons.IH [OF rest] obtain rs where
      "list_all2 (\<lambda>x r. \<exists>wa wb. W x wa = Ok (r, wb)) xs rs" "out' = filter (isA t) rs"
      by blast
    with W True out
    have "list_all2 (\<lambda>x r. \<exists>wa wb. W x wa = Ok (r, wb)) (x # xs) (v # rs)
        \<and> out = filter (isA t) (v # rs)"
      by auto
    then show ?thesis by blast
  next
    case False
    with Cons.prems W obtain w2 where
      nk: "nk x w1 = Ok w2" and rest: "walkNodeList W nk t xs w2 = Ok (out, w')"
      by (cases "nk x w1") auto
    from Cons.IH [OF rest] obtain rs where
      "list_all2 (\<lambda>x r. \<exists>wa wb. W x wa = Ok (r, wb)) xs rs" "out = filter (isA t) rs"
      by blast
    with W False
    have "list_all2 (\<lambda>x r. \<exists>wa wb. W x wa = Ok (r, wb)) (x # xs) (v # rs)
        \<and> out = filter (isA t) (v # rs)"
      by auto
    then show ?thesis by blast
  qed
qed









section \<open>Cascading removal\<close>

text \<open>
  Claim C3, as amended: the required slots that cascade are those the code processes with
  \<^verbatim>\<open>if v, ok := Walk(n.X, fn).(T); ok { n.X = v } else { return }\<close> or with
  \<^verbatim>\<open>if n.X, _ = Walk(n.X, fn).(T); n.X == nil { return }\<close>. For such a slot, when the
  statements before it have run and the walk of the child yields a value that fails the
  assertion (the removal signal is one), \<^verbatim>\<open>Walk\<close> returns the removal signal at once: the
  remaining statements are not run, \<^verbatim>\<open>fn(nil)\<close> is not called, and the store is the one the
  child's walk left (with the slot set to nil in the second form).
\<close>

theorem required_slot_cascade:
  assumes "slots kd = Some (pre @ st # post)"
    and "st = AssignElseReturn s \<or> st = AssignOkReturnIfNil s"
    and "fn (Ptr kd a) w = ((r, True), w0)"
    and "block (map (exec (Walk k fn) (nukeComments k) a) pre) w0 = Ok (Next, w1)"
    and "Walk k fn (load s a w1) w1 = Ok (v, w2)"
    and "\<not> isA (target s) v"
  shows "Walk (Suc k) fn (Ptr kd a) w
    = Ok (Nil, if st = AssignElseReturn s then w2 else store s a Nil w2)"
proof -
  have "exec (Walk k fn) (nukeComments k) a st w1
      = Ok (Return, if st = AssignElseReturn s then w2 else store s a Nil w2)"
    using assms(2,5,6) by (auto simp: commaOk_def)
  with walkChildren_split [OF assms(1,4)]
  have "walkChildren (Walk k fn) (nukeComments k) kd a w0
      = Ok (Return, if st = AssignElseReturn s then w2 else store s a Nil w2)"
    by simp
  with assms(3) show ?thesis by simp
qed

text \<open>
  The claim as stated, for every required slot, fails in two ways. At a slot assigned
  through an unchecked assertion the walk panics: so for the operand of \<^verbatim>\<open>(x)\<close>. At the
  method list of an interface type, walked unconditionally and assigned with \<^verbatim>\<open>, _\<close>, the
  slot is set to nil and the interface type is kept.
\<close>

theorem required_slot_counterexample:
  "Walk (Suc (Suc 0)) (scripted [(Ptr KIdent 2, Nil, False)]) (Ptr KParenExpr 1) parenIdent
     = Panic (Conversion Nil (ToIface FExpr))
   \<and> returned (Walk (Suc (Suc 0)) (scripted [(Ptr KFieldList 2, Nil, False)])
        (Ptr KInterfaceType 1) interfaceMethods) = Ok (Ptr KInterfaceType 1)
   \<and> after (readP InterfaceType_Methods 1) (Walk (Suc (Suc 0))
        (scripted [(Ptr KFieldList 2, Nil, False)]) (Ptr KInterfaceType 1) interfaceMethods)
       = Some None
   \<and> after user (Walk (Suc (Suc 0))
        (scripted [(Ptr KFieldList 2, Nil, False)]) (Ptr KInterfaceType 1) interfaceMethods)
       = Some [Ptr KInterfaceType 1, Ptr KFieldList 2, Nil]"
  by (simp add: sample_eval)


text \<open>The value type of \<^verbatim>\<open>map[k]v\<close> removed: the map type is removed, after its key was walked.\<close>

theorem required_slot_cascade_witness:
  "returned (Walk (Suc (Suc 0)) (scripted [(Ptr KIdent 3, Nil, False)]) (Ptr KMapType 1) mapKeyValue)
     = Ok Nil
   \<and> after user (Walk (Suc (Suc 0)) (scripted [(Ptr KIdent 3, Nil, False)]) (Ptr KMapType 1)
        mapKeyValue) = Some [Ptr KMapType 1, Ptr KIdent 2, Nil, Ptr KIdent 3]"
proof -
  let ?fn = "scripted [(Ptr KIdent 3, Nil, False)]"
  let ?w0 = "mapKeyValue\<lparr>user := user mapKeyValue @ [Ptr KMapType 1]\<rparr>"
  have a: "?fn (Ptr KMapType 1) mapKeyValue = ((Ptr KMapType 1, True), ?w0)"
    by (simp add: scripted_def)
  have s: "slots KMapType
      = Some ([AssignOkReturnIfNil (I MapType_Key)] @ AssignOkReturnIfNil (I MapType_Value) # [])"
    by (simp add: slots_def)
  have "\<exists>w1 v w2.
      block (map (exec (Walk (Suc 0) ?fn) (nukeComments (Suc 0)) 1)
        [AssignOkReturnIfNil (I MapType_Key)]) ?w0 = Ok (Next, w1)
      \<and> Walk (Suc 0) ?fn (load (I MapType_Value) 1 w1) w1 = Ok (v, w2)
      \<and> \<not> isA (target (I MapType_Value)) v"
    by (simp add: sample_eval)
  then obtain w1 v w2 where
    b: "block (map (exec (Walk (Suc 0) ?fn) (nukeComments (Suc 0)) 1)
        [AssignOkReturnIfNil (I MapType_Key)]) ?w0 = Ok (Next, w1)"
    and c: "Walk (Suc 0) ?fn (load (I MapType_Value) 1 w1) w1 = Ok (v, w2)"
    and d: "\<not> isA (target (I MapType_Value)) v"
    by blast
  have "Walk (Suc (Suc 0)) ?fn (Ptr KMapType 1) mapKeyValue
      = Ok (Nil, if AssignOkReturnIfNil (I MapType_Value) = AssignElseReturn (I MapType_Value)
                 then w2 else store (I MapType_Value) 1 Nil w2)"
    by (rule required_slot_cascade [OF s _ a b c d]) simp
  then have "returned (Walk (Suc (Suc 0)) ?fn (Ptr KMapType 1) mapKeyValue) = Ok Nil"
    by (simp add: returned_def)
  moreover have "after user (Walk (Suc (Suc 0)) ?fn (Ptr KMapType 1) mapKeyValue)
      = Some [Ptr KMapType 1, Ptr KIdent 2, Nil, Ptr KIdent 3]"
    by (simp add: sample_eval)
  ultimately show ?thesis by simp
qed

text \<open>The slots with one of the two cascading statement forms are exactly these twelve.\<close>

lemma cascading_slots_iff:
  "(\<exists>ss. slots kd = Some ss \<and> (AssignElseReturn s \<in> set ss \<or> AssignOkReturnIfNil s \<in> set ss))
   \<longleftrightarrow> (kd, s) \<in> set cascadingSlots"
  by (cases kd) (auto simp: slots_def cascadingSlots_def)

text \<open>
  At a slot assigned through an unchecked assertion, a child result that fails the
  assertion (nil, or a node of another kind) makes \<^verbatim>\<open>Walk\<close> panic.
\<close>

lemma unchecked_slot_panics:
  assumes "slots kd = Some (pre @ st # post)"
    and "st = Assign s \<or> (st = IfPresent s (Assign s) \<and> \<not> absent s a w1)"
    and "fn (Ptr kd a) w = ((r, True), w0)"
    and "block (map (exec (Walk k fn) (nukeComments k) a) pre) w0 = Ok (Next, w1)"
    and "Walk k fn (load s a w1) w1 = Ok (v, w2)"
    and "\<not> isA (target s) v"
  shows "Walk (Suc k) fn (Ptr kd a) w = Panic (Conversion v (target s))"
proof -
  have "exec (Walk k fn) (nukeComments k) a st w1 = Panic (Conversion v (target s))"
    using assms(2,5,6) by auto
  with walkChildren_split [OF assms(1,4)]
  have "walkChildren (Walk k fn) (nukeComments k) kd a w0 = Panic (Conversion v (target s))"
    by simp
  with assms(3) show ?thesis by simp
qed

section \<open>Clearing an optional slot\<close>





text \<open>The slots with the clearing statement form are exactly these seven.\<close>

lemma cleared_slots_iff:
  "(\<exists>ss. slots kd = Some ss \<and> IfPresent s (AssignOk s) \<in> set ss)
   \<longleftrightarrow> (kd, s) \<in> set clearedSlots"
  by (cases kd) (auto simp: slots_def clearedSlots_def)

section \<open>Generic declarations\<close>

text \<open>
  Claim C4: for a generic declaration on which the visitor consents to descend, the
  specifications after the walk are the results of walking them, in order, that are
  specifications; when none is left \<^verbatim>\<open>Walk\<close> returns the removal signal; when some are left
  they are stored in \<^verbatim>\<open>Specs\<close> and, once the doc comment has been processed, \<^verbatim>\<open>Walk\<close> returns the
  visitor's result for the declaration.
\<close>

theorem genDecl_specs:
  assumes "fn (Ptr KGenDecl a) w = ((r, True), w0)"
    and "walkSpecList (Walk k fn) (nukeComments k) (ilist w0 GenDecl_Specs a) w0 = Ok (out, w1)"
  shows "(\<exists>rs. list_all2 (\<lambda>x r. \<exists>wa wb. Walk k fn x wa = Ok (r, wb)) (ilist w0 GenDecl_Specs a) rs
            \<and> out = filter (isA (ToIface FSpec)) rs)
     \<and> (out = [] \<longrightarrow> Walk (Suc k) fn (Ptr KGenDecl a) w = Ok (Nil, setIL GenDecl_Specs a [] w1))
     \<and> (out \<noteq> [] \<longrightarrow>
          ilist (setIL GenDecl_Specs a out w1) GenDecl_Specs a = out
          \<and> (\<forall>w2. exec (Walk k fn) (nukeComments k) a
                     (IfPresent (P GenDecl_Doc) (Assign (P GenDecl_Doc)))
                     (setIL GenDecl_Specs a out w1) = Ok (Next, w2)
                 \<longrightarrow> Walk (Suc k) fn (Ptr KGenDecl a) w = Ok (r, snd (fn Nil w2))))"
proof (intro conjI impI allI)
  show "\<exists>rs. list_all2 (\<lambda>x r. \<exists>wa wb. Walk k fn x wa = Ok (r, wb)) (ilist w0 GenDecl_Specs a) rs
            \<and> out = filter (isA (ToIface FSpec)) rs"
    using assms(2) unfolding walkSpecList_def by (rule walkNodeList_results)
next
  assume "out = []"
  with assms(2) have "walkChildren (Walk k fn) (nukeComments k) KGenDecl a w0
      = Ok (Return, setIL GenDecl_Specs a [] w1)"
    by (simp add: walkChildren_def slots_def)
  with assms(1)
  show "Walk (Suc k) fn (Ptr KGenDecl a) w = Ok (Nil, setIL GenDecl_Specs a [] w1)"
    by simp
next
  show "ilist (setIL GenDecl_Specs a out w1) GenDecl_Specs a = out"
    by (simp add: setIL_def)
next
  fix w2
  assume ne: "out \<noteq> []"
    and doc: "exec (Walk k fn) (nukeComments k) a
                (IfPresent (P GenDecl_Doc) (Assign (P GenDecl_Doc)))
                (setIL GenDecl_Specs a out w1) = Ok (Next, w2)"
  from ne assms(2) doc have "walkChildren (Walk k fn) (nukeComments k) KGenDecl a w0
      = Ok (Next, w2)"
    by (simp add: walkChildren_def slots_def)
  with assms(1)
  show "Walk (Suc k) fn (Ptr KGenDecl a) w = Ok (r, snd (fn Nil w2))"
    by simp
qed

text \<open>
  The two scenarios of the specification: the only specification removed, and the second
  of two removed.
\<close>

theorem genDecl_specs_witness:
  "returned (Walk (Suc (Suc (Suc 0))) (scripted [(Ptr KImportSpec 2, Nil, False)])
       (Ptr KGenDecl 1) declOneSpec) = Ok Nil
   \<and> returned (Walk (Suc (Suc (Suc 0))) (scripted [(Ptr KImportSpec 3, Nil, False)])
       (Ptr KGenDecl 1) declTwoSpecs) = Ok (Ptr KGenDecl 1)
   \<and> after (readIL GenDecl_Specs 1) (Walk (Suc (Suc (Suc 0)))
       (scripted [(Ptr KImportSpec 3, Nil, False)]) (Ptr KGenDecl 1) declTwoSpecs)
       = Some [Ptr KImportSpec 2]"
proof -
  let ?fa = "scripted [(Ptr KImportSpec 2, Nil, False)]"
  let ?fb = "scripted [(Ptr KImportSpec 3, Nil, False)]"
  let ?wa = "declOneSpec\<lparr>user := user declOneSpec @ [Ptr KGenDecl 1]\<rparr>"
  let ?wb = "declTwoSpecs\<lparr>user := user declTwoSpecs @ [Ptr KGenDecl 1]\<rparr>"
  let ?nk = "nukeComments (Suc (Suc 0)) :: val list pruner"
  have a1: "?fa (Ptr KGenDecl 1) declOneSpec = ((Ptr KGenDecl 1, True), ?wa)"
    by (simp add: scripted_def)
  have "\<exists>out w1. walkSpecList (Walk (Suc (Suc 0)) ?fa) ?nk (ilist ?wa GenDecl_Specs 1) ?wa
      = Ok (out, w1) \<and> out = []"
    by (simp add: sample_eval)
  then obtain w1 where
    a2: "walkSpecList (Walk (Suc (Suc 0)) ?fa) ?nk (ilist ?wa GenDecl_Specs 1) ?wa = Ok ([], w1)"
    by blast
  from genDecl_specs [where fn = ?fa, OF a1 a2]
  have "Walk (Suc (Suc (Suc 0))) ?fa (Ptr KGenDecl 1) declOneSpec
      = Ok (Nil, setIL GenDecl_Specs 1 [] w1)" by blast
  then have one: "returned (Walk (Suc (Suc (Suc 0))) ?fa (Ptr KGenDecl 1) declOneSpec) = Ok Nil"
    by (simp add: returned_def)
  have b1: "?fb (Ptr KGenDecl 1) declTwoSpecs = ((Ptr KGenDecl 1, True), ?wb)"
    by (simp add: scripted_def)
  have "\<exists>out w1 w2. walkSpecList (Walk (Suc (Suc 0)) ?fb) ?nk (ilist ?wb GenDecl_Specs 1) ?wb
      = Ok (out, w1) \<and> out \<noteq> []
      \<and> exec (Walk (Suc (Suc 0)) ?fb) ?nk 1 (IfPresent (P GenDecl_Doc) (Assign (P GenDecl_Doc)))
          (setIL GenDecl_Specs 1 out w1) = Ok (Next, w2)"
    by (simp add: sample_eval)
  then obtain out w1' w2 where
    b2: "walkSpecList (Walk (Suc (Suc 0)) ?fb) ?nk (ilist ?wb GenDecl_Specs 1) ?wb = Ok (out, w1')"
    and b3: "out \<noteq> []"
    and b4: "exec (Walk (Suc (Suc 0)) ?fb) ?nk 1
          (IfPresent (P GenDecl_Doc) (Assign (P GenDecl_Doc)))
          (setIL GenDecl_Specs 1 out w1') = Ok (Next, w2)"
    by blast
  from genDecl_specs [where fn = ?fb, OF b1 b2] b3 b4
  have "Walk (Suc (Suc (Suc 0))) ?fb (Ptr KGenDecl 1) declTwoSpecs
      = Ok (Ptr KGenDecl 1, snd (?fb Nil w2))" by blast
  then have two: "returned (Walk (Suc (Suc (Suc 0))) ?fb (Ptr KGenDecl 1) declTwoSpecs)
      = Ok (Ptr KGenDecl 1)"
    by (simp add: returned_def)
  have "after (readIL GenDecl_Specs 1) (Walk (Suc (Suc (Suc 0))) ?fb (Ptr KGenDecl 1) declTwoSpecs)
       = Some [Ptr KImportSpec 2]"
    by (simp add: sample_eval)
  with one two show ?thesis by simp
qed

section \<open>A removal result together with the consent to descend\<close>

text \<open>
  Claim C2, as amended: when the visitor returns nil together with \<^verbatim>\<open>true\<close>, \<^verbatim>\<open>Walk\<close> processes
  the slots of the node as for any other result, calls \<^verbatim>\<open>fn(nil)\<close> when they complete, and
  whenever it returns, it returns nil.
\<close>

theorem removal_with_descend_walks_children:
  assumes "fn (Ptr kd a) w = ((Nil, True), w0)"
  shows "Walk (Suc k) fn (Ptr kd a) w =
       bindO (walkChildren (Walk k fn) (nukeComments k) kd a w0) (\<lambda>(c, w2).
         case c of Return \<Rightarrow> Ok (Nil, w2) | Next \<Rightarrow> Ok (Nil, snd (fn Nil w2)))
     \<and> (\<forall>v w'. Walk (Suc k) fn (Ptr kd a) w = Ok (v, w') \<longrightarrow> v = Nil)"
proof
  show eq: "Walk (Suc k) fn (Ptr kd a) w =
       bindO (walkChildren (Walk k fn) (nukeComments k) kd a w0) (\<lambda>(c, w2).
         case c of Return \<Rightarrow> Ok (Nil, w2) | Next \<Rightarrow> Ok (Nil, snd (fn Nil w2)))"
    using assms by simp
  show "\<forall>v w'. Walk (Suc k) fn (Ptr kd a) w = Ok (v, w') \<longrightarrow> v = Nil"
  proof (intro allI impI)
    fix v w' assume "Walk (Suc k) fn (Ptr kd a) w = Ok (v, w')"
    with eq obtain c w2 where
      "(case c of Return \<Rightarrow> Ok (Nil, w2) | Next \<Rightarrow> Ok (Nil, snd (fn Nil w2))) = Ok (v, w')"
      by (auto simp: bindO_eq_Ok)
    then show "v = Nil" by (cases c) auto
  qed
qed

text \<open>
  The claim as stated fails: on the call \<^verbatim>\<open>f(a, b, c)\<close>, with nil and \<^verbatim>\<open>true\<close> for the call and the
  removal of \<open>b\<close>, the visitor is called on \<open>f\<close>, \<open>a\<close>, \<open>b\<close> and \<open>c\<close>, the arguments of the call
  are rewritten to \<open>a, c\<close>, and the last entry of the visitor's log is the post-order call
  for the call expression.
\<close>

theorem removal_with_descend_counterexample:
  "returned (Walk (Suc (Suc 0))
       (scripted [(Ptr KCallExpr 1, Nil, True), (Ptr KIdent 3, Nil, False)])
       (Ptr KCallExpr 1) callThreeArgs) = Ok Nil
   \<and> after user (Walk (Suc (Suc 0))
       (scripted [(Ptr KCallExpr 1, Nil, True), (Ptr KIdent 3, Nil, False)])
       (Ptr KCallExpr 1) callThreeArgs)
     = Some [Ptr KCallExpr 1, Ptr KIdent 5, Nil, Ptr KIdent 2, Nil, Ptr KIdent 3, Ptr KIdent 4,
             Nil, Nil]
   \<and> after (readIL CallExpr_Args 1) (Walk (Suc (Suc 0))
       (scripted [(Ptr KCallExpr 1, Nil, True), (Ptr KIdent 3, Nil, False)])
       (Ptr KCallExpr 1) callThreeArgs) = Some [Ptr KIdent 2, Ptr KIdent 4]
   \<and> readIL CallExpr_Args 1 callThreeArgs = [Ptr KIdent 2, Ptr KIdent 3, Ptr KIdent 4]"
  by (simp add: sample_eval)

text \<open>The same call with no argument removed.\<close>

theorem removal_with_descend_witness:
  "returned (Walk (Suc (Suc 0)) (scripted [(Ptr KCallExpr 1, Nil, True)])
       (Ptr KCallExpr 1) callThreeArgs) = Ok Nil
   \<and> after user (Walk (Suc (Suc 0)) (scripted [(Ptr KCallExpr 1, Nil, True)])
       (Ptr KCallExpr 1) callThreeArgs)
     = Some [Ptr KCallExpr 1, Ptr KIdent 5, Nil, Ptr KIdent 2, Nil, Ptr KIdent 3, Nil,
             Ptr KIdent 4, Nil, Nil]"
proof -
  let ?fn = "scripted [(Ptr KCallExpr 1, Nil, True)]"
  let ?w0 = "callThreeArgs\<lparr>user := user callThreeArgs @ [Ptr KCallExpr 1]\<rparr>"
  let ?run = "Walk (Suc (Suc 0)) ?fn (Ptr KCallExpr 1) callThreeArgs"
  have a: "?fn (Ptr KCallExpr 1) callThreeArgs = ((Nil, True), ?w0)"
    by (simp add: scripted_def)
  have "\<exists>v w'. ?run = Ok (v, w')"
    by (simp add: sample_eval)
  then obtain v w' where run: "?run = Ok (v, w')" by blast
  with removal_with_descend_walks_children [where fn = ?fn and k = "Suc 0", OF a]
  have "v = Nil" by blast
  with run have "returned ?run = Ok Nil" by (simp add: returned_def)
  moreover have "after user ?run
     = Some [Ptr KCallExpr 1, Ptr KIdent 5, Nil, Ptr KIdent 2, Nil, Ptr KIdent 3, Nil,
             Ptr KIdent 4, Nil, Nil]"
    by (simp add: sample_eval)
  ultimately show ?thesis by simp
qed

section \<open>A replacement together with the consent to descend\<close>

















section \<open>Replacements of the wrong kind\<close>

text \<open>
  Claim C1: a replacement whose kind does not fit the slot makes the walk panic. The code
  does so only where the assertion is unchecked. In \<^verbatim>\<open>walkExprList\<close> (and wherever \<^verbatim>\<open>, ok\<close> is
  used) a statement returned for an expression is dropped like a removed element and the
  walk goes on; the theorem runs the code on such an input, and on the same replacement
  below a parenthesis, where it panics. The doc comment of \<^verbatim>\<open>Walk\<close> promises the panic.
\<close>

theorem mismatch_dropped_from_list:
  "returned (Walk (Suc (Suc 0)) (scripted [(Ptr KIdent 3, Ptr KEmptyStmt 9, False)])
       (Ptr KCallExpr 1) callThreeArgs) = Ok (Ptr KCallExpr 1)
   \<and> after (readIL CallExpr_Args 1) (Walk (Suc (Suc 0))
       (scripted [(Ptr KIdent 3, Ptr KEmptyStmt 9, False)]) (Ptr KCallExpr 1) callThreeArgs)
       = Some [Ptr KIdent 2, Ptr KIdent 4]
   \<and> returned (Walk (Suc (Suc 0)) (scripted [(Ptr KIdent 2, Ptr KEmptyStmt 9, False)])
       (Ptr KParenExpr 1) parenIdent) = Panic (Conversion (Ptr KEmptyStmt 9) (ToIface FExpr))"
  by (simp add: sample_eval)

section \<open>Comments of removed nodes\<close>

text \<open>
  Claim C6: no comment of a removed node stays attached to a retained node. The code
  prunes (\<^verbatim>\<open>nukeComments\<close>) only the elements it drops from a slice. When the visitor removes
  the method list of an interface type, the slot \<^verbatim>\<open>InterfaceType.Methods\<close> is set to nil without
  pruning: the comment group of the removed method keeps its comment and the retained file
  still lists the group in \<^verbatim>\<open>Comments\<close>. Removing the method itself, an element of a slice,
  empties the group.
\<close>

theorem comment_survives_slot_removal:
  "returned (Walk (Suc (Suc (Suc (Suc (Suc (Suc (Suc (Suc 0))))))))
       (scripted [(Ptr KFieldList 7, Nil, False)]) (Ptr KFile 1) fileWithMethodComment)
       = Ok (Ptr KFile 1)
   \<and> after (readP InterfaceType_Methods 6) (Walk (Suc (Suc (Suc (Suc (Suc (Suc (Suc (Suc 0))))))))
       (scripted [(Ptr KFieldList 7, Nil, False)]) (Ptr KFile 1) fileWithMethodComment)
       = Some None
   \<and> after (readPL File_Comments 1) (Walk (Suc (Suc (Suc (Suc (Suc (Suc (Suc (Suc 0))))))))
       (scripted [(Ptr KFieldList 7, Nil, False)]) (Ptr KFile 1) fileWithMethodComment)
       = Some [Some 10]
   \<and> after (readPL CommentGroup_List 10) (Walk (Suc (Suc (Suc (Suc (Suc (Suc (Suc (Suc 0))))))))
       (scripted [(Ptr KFieldList 7, Nil, False)]) (Ptr KFile 1) fileWithMethodComment)
       = Some [Some 11]
   \<and> after (readPL CommentGroup_List 10) (Walk (Suc (Suc (Suc (Suc (Suc (Suc (Suc (Suc 0))))))))
       (scripted [(Ptr KField 8, Nil, False)]) (Ptr KFile 1) fileWithMethodComment)
       = Some []"
  by (simp add: sample_eval)

end
